theory Spec2Isabelle
  imports Main
begin

section \<open>Python values\<close>

text \<open>
  The builder \<open>apple_wallet\<close> of \<open>app/routes/wallet.py\<close> receives the profile as a Python
  dictionary and assembles another dictionary, the manifest \<open>pass_json\<close>. Both hold
  JSON-like values. A dictionary is an association list: \<open>json.dumps\<close> writes the keys in
  insertion order. A float occurs only as a literal of the source; it is kept as the
  decimal it is written as, mantissa and exponent of ten.
\<close>

type_synonym bytes = string

datatype pyval =
    PNone
  | PBool bool
  | PInt int
  | PFloat int int
  | PStr string
  | PList "pyval list"
  | PDict "(string \<times> pyval) list"

datatype error =
    AttributeError
  | TypeError
  | FileNotFoundError
  | RequestException
  | SigningError

text \<open>Python's truth value of an object, as \<open>if x:\<close> tests it.\<close>

fun py_truthy :: "pyval \<Rightarrow> bool" where
  "py_truthy PNone = False"
| "py_truthy (PBool b) = b"
| "py_truthy (PInt i) = (i \<noteq> 0)"
| "py_truthy (PFloat m e) = (m \<noteq> 0)"
| "py_truthy (PStr s) = (s \<noteq> [])"
| "py_truthy (PList xs) = (xs \<noteq> [])"
| "py_truthy (PDict kvs) = (kvs \<noteq> [])"

text \<open>
  \<open>x.get(k, dflt)\<close>: the value stored under \<open>k\<close>, the default only when the key is
  absent. Of the JSON-like values only a dictionary has the method; on any other
  object the attribute lookup raises \<open>AttributeError\<close>.
\<close>

fun py_get :: "pyval \<Rightarrow> string \<Rightarrow> pyval \<Rightarrow> error + pyval" where
  "py_get (PDict kvs) k dflt = Inr (case map_of kvs k of Some v \<Rightarrow> v | None \<Rightarrow> dflt)"
| "py_get _ k dflt = Inl AttributeError"

text \<open>
  \<open>a + b\<close> as the builder uses it, with a \<open>str\<close> on one side at least: the
  concatenation when both are \<open>str\<close>, \<open>TypeError\<close> otherwise.
\<close>

fun py_add :: "pyval \<Rightarrow> pyval \<Rightarrow> error + pyval" where
  "py_add (PStr a) (PStr b) = Inr (PStr (a @ b))"
| "py_add _ _ = Inl TypeError"

text \<open>Reading a manifest: a path of dictionary keys and list indices.\<close>

datatype key = K string | I nat

fun py_path :: "pyval \<Rightarrow> key list \<Rightarrow> pyval option" where
  "py_path v [] = Some v"
| "py_path (PDict kvs) (K k # ks) =
     (case map_of kvs k of None \<Rightarrow> None | Some v \<Rightarrow> py_path v ks)"
| "py_path (PList xs) (I i # ks) =
     (if i < length xs then py_path (xs ! i) ks else None)"
| "py_path _ _ = None"

section \<open>The environment and the world\<close>

text \<open>
  What the builder reads from outside is a parameter: the network (the answer to the
  \<open>n\<close>-th request of the process, for the URL asked), the generator behind
  \<open>str(uuid.uuid4())\<close> (its \<open>n\<close>-th identifier), the files under the application
  directory, \<open>json.dumps(_).encode("utf8")\<close> and the signature computed by the
  \<open>airpress\<close> package from key, certificate and entries. The world records what has
  been consumed: the requests sent so far and the number of identifiers drawn.
\<close>

datatype http_result = Response int bytes | RequestFailed

record env =
  net :: "nat \<Rightarrow> pyval \<Rightarrow> http_result"
  uuid4 :: "nat \<Rightarrow> string"
  files :: "string \<Rightarrow> bytes option"
  json_dumps :: "pyval \<Rightarrow> bytes"
  pkcs7_sign :: "bytes \<Rightarrow> bytes \<Rightarrow> (string \<times> bytes) list \<Rightarrow> bytes option"

record world =
  requests :: "pyval list"
  uuids_drawn :: nat

text \<open>
  A computation either never returns (\<open>None\<close>), raises, or returns a value and the
  world it leaves.
\<close>

type_synonym 'a io = "world \<Rightarrow> (error + 'a \<times> world) option"

definition return_io :: "'a \<Rightarrow> 'a io" where
  "return_io x = (\<lambda>w. Some (Inr (x, w)))"

definition bind_io :: "'a io \<Rightarrow> ('a \<Rightarrow> 'b io) \<Rightarrow> 'b io" where
  "bind_io m f = (\<lambda>w. case m w of
       None \<Rightarrow> None
     | Some (Inl e) \<Rightarrow> Some (Inl e)
     | Some (Inr (x, w')) \<Rightarrow> f x w')"

definition lift :: "error + 'a \<Rightarrow> 'a io" where
  "lift r = (\<lambda>w. case r of Inl e \<Rightarrow> Some (Inl e) | Inr x \<Rightarrow> Some (Inr (x, w)))"

definition bind_err :: "error + 'a \<Rightarrow> ('a \<Rightarrow> error + 'b) \<Rightarrow> error + 'b" where
  "bind_err r f = (case r of Inl e \<Rightarrow> Inl e | Inr x \<Rightarrow> f x)"

text \<open>\<open>with open(path, "rb") as file: file.read()\<close>.\<close>

definition open_rb :: "env \<Rightarrow> string \<Rightarrow> error + bytes" where
  "open_rb env path = (case files env path of None \<Rightarrow> Inl FileNotFoundError | Some b \<Rightarrow> Inr b)"

text \<open>\<open>str(uuid.uuid4())\<close>: the next identifier of the generator.\<close>

definition uuid4_str :: "env \<Rightarrow> string io" where
  "uuid4_str env = (\<lambda>w. Some (Inr (uuid4 env (uuids_drawn w), w\<lparr>uuids_drawn := Suc (uuids_drawn w)\<rparr>)))"

section \<open>The pass package\<close>

text \<open>
  Modelled from the spec: the class \<open>PKPass\<close> of the \<open>airpress\<close> package, which is not
  part of the repository. A pass package is an ordered collection of named binary
  entries plus a signature block; it is created empty, populated, and sealed by
  signing. Key and certificate are attached to the package context, never to the
  entries.
\<close>

record pkpass =
  pass_package :: "(string \<times> bytes) list"
  key :: "bytes option"
  cert :: "bytes option"
  signature :: "bytes option"

definition PKPass :: pkpass where
  "PKPass = \<lparr>pass_package = [], key = None, cert = None, signature = None\<rparr>"

definition add_to_pass_package :: "pkpass \<Rightarrow> string \<times> bytes \<Rightarrow> pkpass" where
  "add_to_pass_package p entry = p\<lparr>pass_package := pass_package p @ [entry]\<rparr>"

definition sign :: "env \<Rightarrow> pkpass \<Rightarrow> error + pkpass" where
  "sign env p =
     (case key p of None \<Rightarrow> Inl SigningError | Some k \<Rightarrow>
       (case cert p of None \<Rightarrow> Inl SigningError | Some c \<Rightarrow>
         (case pkcs7_sign env k c (pass_package p) of
            None \<Rightarrow> Inl SigningError
          | Some s \<Rightarrow> Inr (p\<lparr>signature := Some s\<rparr>))))"

section \<open>The avatar fetch\<close>

definition fallback_url :: string where
  "fallback_url = ''https://cdn.hackucf.org/PFP.png''"

text \<open>
  \<open>get_img(url)\<close>: one request; a status below 400 returns the body, any other status
  calls \<open>get_img\<close> again on the fallback URL. \<open>requests.get\<close> raising ends the call
  with the exception. The recursion has no bound in the source, so the function is
  partial: \<open>None\<close> is a call that never returns normally.
\<close>

partial_function (option) get_img :: "env \<Rightarrow> pyval \<Rightarrow> world \<Rightarrow> (error + bytes \<times> world) option" where
  "get_img env url w =
     (case net env (length (requests w)) url of
        RequestFailed \<Rightarrow> Some (Inl RequestException)
      | Response status body \<Rightarrow>
          if status < 400 then Some (Inr (body, w\<lparr>requests := requests w @ [url]\<rparr>))
          else get_img env (PStr fallback_url) (w\<lparr>requests := requests w @ [url]\<rparr>))"

section \<open>The builder\<close>

definition asset_path :: "string \<Rightarrow> string" where
  "asset_path name = ''../static/apple_wallet/'' @ name"

definition key_path :: string where
  "key_path = ''../config/pki/hackucf.key''"

definition cert_path :: string where
  "cert_path = ''../config/pki/hackucf.pem''"

text \<open>
  The dictionary display of lines 62 to 120, as a function of the five values it
  computes: the serial number, the barcode message and alt-text, the name and the
  infra email. Everything else in it is a constant.
\<close>

definition manifest :: "string \<Rightarrow> pyval \<Rightarrow> pyval \<Rightarrow> pyval \<Rightarrow> pyval \<Rightarrow> pyval" where
  "manifest serial message alt_text name infra =
     PDict [
       (''passTypeIdentifier'', PStr ''pass.org.hackucf.join''),
       (''formatVersion'', PInt 1),
       (''teamIdentifier'', PStr ''VWTW9R97Q4''),
       (''organizationName'', PStr ''Hack@UCF''),
       (''serialNumber'', PStr serial),
       (''description'', PStr ''Hack@UCF Membership ID''),
       (''locations'', PList [PDict [
          (''latitude'', PFloat 28601366109876327 (- 15)),
          (''longitude'', PFloat (- 8119867691612126) (- 14)),
          (''relevantText'', PStr ''You're near the CyberLab!'')]]),
       (''foregroundColor'', PStr ''#D2990B''),
       (''backgroundColor'', PStr ''#1C1C1C''),
       (''labelColor'', PStr ''#ffffff''),
       (''logoText'', PStr []),
       (''barcodes'', PList [PDict [
          (''format'', PStr ''PKBarcodeFormatQR''),
          (''message'', message),
          (''messageEncoding'', PStr ''iso-8859-1''),
          (''altText'', alt_text)]]),
       (''generic'', PDict [
          (''primaryFields'', PList [PDict [
             (''label'', PStr ''Name''),
             (''key'', PStr ''name''),
             (''value'', name)]]),
          (''secondaryFields'', PList [PDict [
             (''label'', PStr ''Infra Email''),
             (''key'', PStr ''infra''),
             (''value'', infra)]]),
          (''backFields'', PList [
             PDict [
               (''label'', PStr ''View Profile''),
               (''key'', PStr ''view-profile''),
               (''value'', PStr ''You can view and edit your profile at https://join.hackucf.org/profile.''),
               (''attributedValue'', PStr ''You can view and edit your profile at <a href='https://join.hackucf.org/profile'>join.hackucf.org</a>.'')],
             PDict [
               (''label'', PStr ''Check In''),
               (''key'', PStr ''check-in''),
               (''value'', PStr ''At a meeting? Visit https://hackucf.org/signin to sign in''),
               (''attributedValue'', PStr ''At a meeting? Visit <a href='https://hackucf.org/signin'>hackucf.org/signin</a> to sign in.'')]])])
     ]"

text \<open>
  The value of \<open>pass_json\<close>, given the serial number drawn for it. The five values
  are evaluated in the order of the source; a failing one raises and ends the builder.
\<close>

definition pass_json :: "string \<Rightarrow> pyval \<Rightarrow> error + pyval" where
  "pass_json serial user_data =
     bind_err (py_get user_data ''id'' (PStr ''Unknown_ID'')) (\<lambda>message.
     bind_err (py_get user_data ''discord'' (PDict [])) (\<lambda>discord.
     bind_err (py_get discord ''username'' PNone) (\<lambda>alt_text.
     bind_err (py_get user_data ''first_name'' (PStr [])) (\<lambda>first_name.
     bind_err (py_add first_name (PStr '' '')) (\<lambda>first_sp.
     bind_err (py_get user_data ''surname'' (PStr [])) (\<lambda>surname.
     bind_err (py_add first_sp surname) (\<lambda>name.
     bind_err (py_get user_data ''infra_email'' (PStr ''Not Provisioned'')) (\<lambda>infra.
     Inr (manifest serial message alt_text name infra)))))))))"

text \<open>
  \<open>apple_wallet(user_data)\<close>, statement by statement: the role flag, the two icons, the
  manifest, the thumbnails when the profile has an avatar, the logos of the role, the
  serialised manifest, the credentials, the signature.
\<close>

definition apple_wallet :: "env \<Rightarrow> pyval \<Rightarrow> pkpass io" where
  "apple_wallet env user_data =
     bind_io (return_io PKPass) (\<lambda>p.
     bind_io (lift (py_get user_data ''ops_email'' (PBool False))) (\<lambda>ops_email.
     let is_ops = (if py_truthy ops_email then True else False) in
     bind_io (lift (open_rb env (asset_path ''icon.png''))) (\<lambda>ico_data.
     let p = add_to_pass_package p (''icon.png'', ico_data) in
     bind_io (lift (open_rb env (asset_path ''icon@2x.png''))) (\<lambda>ico_data.
     let p = add_to_pass_package p (''icon@2x.png'', ico_data) in
     bind_io (uuid4_str env) (\<lambda>serial.
     bind_io (lift (pass_json serial user_data)) (\<lambda>pass_json_dict.
     bind_io (lift (py_get user_data ''discord'' (PDict []))) (\<lambda>discord.
     bind_io (lift (py_get discord ''avatar'' (PBool False))) (\<lambda>discord_img.
     bind_io
       (if py_truthy discord_img then
          bind_io (get_img env discord_img) (\<lambda>img_data.
          let p = add_to_pass_package p (''thumbnail.png'', img_data) in
          bind_io (get_img env discord_img) (\<lambda>img_data.
          let p = add_to_pass_package p (''thumbnail@2x.png'', img_data) in
          return_io p))
        else return_io p) (\<lambda>p.
     bind_io
       (if is_ops then
          bind_io (lift (open_rb env (asset_path ''logo_ops@2x.png''))) (\<lambda>ico_data.
          let p = add_to_pass_package p (''logo@2x.png'', ico_data) in
          bind_io (lift (open_rb env (asset_path ''logo_ops.png''))) (\<lambda>ico_data.
          let p = add_to_pass_package p (''logo.png'', ico_data) in
          return_io p))
        else
          bind_io (lift (open_rb env (asset_path ''logo_reg@2x.png''))) (\<lambda>ico_data.
          let p = add_to_pass_package p (''logo@2x.png'', ico_data) in
          bind_io (lift (open_rb env (asset_path ''logo_reg.png''))) (\<lambda>ico_data.
          let p = add_to_pass_package p (''logo.png'', ico_data) in
          return_io p))) (\<lambda>p.
     let pass_data = json_dumps env pass_json_dict in
     let p = add_to_pass_package p (''pass.json'', pass_data) in
     bind_io (lift (open_rb env key_path)) (\<lambda>key_data.
     bind_io (lift (open_rb env cert_path)) (\<lambda>cert_data.
     let p = p\<lparr>key := Some key_data, cert := Some cert_data\<rparr> in
     bind_io (lift (sign env p)) (\<lambda>p.
     return_io p)))))))))))))"

section \<open>Observing a pass\<close>

text \<open>A field of the manifest a call built, when it built one.\<close>

definition field :: "error + pyval \<Rightarrow> key list \<Rightarrow> pyval option" where
  "field r ks = (case r of Inl e \<Rightarrow> None | Inr m \<Rightarrow> py_path m ks)"

text \<open>The value at a path replaced, to compare two manifests apart from that path.\<close>

fun py_replace :: "pyval \<Rightarrow> key list \<Rightarrow> pyval \<Rightarrow> pyval" where
  "py_replace v [] x = x"
| "py_replace (PDict kvs) (K k # ks) x =
     PDict (map (\<lambda>kv. if fst kv = k then (k, py_replace (snd kv) ks x) else kv) kvs)"
| "py_replace (PList xs) (I i # ks) x =
     (if i < length xs then PList (xs[i := py_replace (xs ! i) ks x]) else PList xs)"
| "py_replace v ks x = v"

definition serial_path :: "key list" where
  "serial_path = [K ''serialNumber'']"

definition message_path :: "key list" where
  "message_path = [K ''barcodes'', I 0, K ''message'']"

definition alt_text_path :: "key list" where
  "alt_text_path = [K ''barcodes'', I 0, K ''altText'']"

definition name_path :: "key list" where
  "name_path = [K ''generic'', K ''primaryFields'', I 0, K ''value'']"

definition infra_path :: "key list" where
  "infra_path = [K ''generic'', K ''secondaryFields'', I 0, K ''value'']"

text \<open>The thumbnail entries of a package, and the package a call returned.\<close>

definition thumbnails :: "pkpass \<Rightarrow> (string \<times> bytes) list" where
  "thumbnails p =
     filter (\<lambda>e. fst e = ''thumbnail.png'' \<or> fst e = ''thumbnail@2x.png'') (pass_package p)"

definition returned :: "(error + 'a \<times> world) option \<Rightarrow> 'a option" where
  "returned r = (case r of Some (Inr (x, w)) \<Rightarrow> Some x | _ \<Rightarrow> None)"

text \<open>
  The thumbnail block of the builder (lines 126 to 132) as a relation: the entries it
  adds for the value of \<open>discord_img\<close>, from one world to the next.
\<close>

definition thumbnails_of :: "env \<Rightarrow> pyval \<Rightarrow> world \<Rightarrow> (string \<times> bytes) list \<Rightarrow> world \<Rightarrow> bool" where
  "thumbnails_of env img w ths w' \<longleftrightarrow>
     (if py_truthy img then
        (\<exists>b1 b2 w1. get_img env img w = Some (Inr (b1, w1)) \<and>
           get_img env img w1 = Some (Inr (b2, w')) \<and>
           ths = [(''thumbnail.png'', b1), (''thumbnail@2x.png'', b2)])
      else ths = [] \<and> w' = w)"

section \<open>Example inputs\<close>

text \<open>
  A profile of an operator with a Discord avatar, the same profile under another
  \<open>id\<close>, and a profile with neither avatar nor role; an environment where every file
  exists, every request is answered with status 200 and the same body, and the
  identifiers of the generator are pairwise distinct.
\<close>

definition avatar_ex :: pyval where
  "avatar_ex = PStr ''https://cdn.discordapp.com/avatars/1/a.png''"

definition profile_ex :: "pyval \<Rightarrow> pyval" where
  "profile_ex ident = PDict [
     (''id'', ident),
     (''first_name'', PStr ''Ada''),
     (''surname'', PStr ''Lovelace''),
     (''ops_email'', PStr ''ada@hackucf.org''),
     (''infra_email'', PStr ''ada@infra.hackucf.org''),
     (''discord'', PDict [(''username'', PStr ''ada''), (''avatar'', avatar_ex)])]"

definition user_ex :: pyval where
  "user_ex = profile_ex (PStr ''1001'')"

definition user_ex2 :: pyval where
  "user_ex2 = profile_ex (PStr ''1002'')"

definition user_plain :: pyval where
  "user_plain = PDict [(''id'', PStr ''1003''), (''first_name'', PStr ''Bo''), (''surname'', PStr [])]"

definition files_ex :: "string \<Rightarrow> bytes option" where
  "files_ex = map_of [
     (''../static/apple_wallet/icon.png'', ''ICON1''),
     (''../static/apple_wallet/icon@2x.png'', ''ICON2''),
     (''../static/apple_wallet/logo_ops.png'', ''OPS1''),
     (''../static/apple_wallet/logo_ops@2x.png'', ''OPS2''),
     (''../static/apple_wallet/logo_reg.png'', ''REG1''),
     (''../static/apple_wallet/logo_reg@2x.png'', ''REG2''),
     (''../config/pki/hackucf.key'', ''KEY''),
     (''../config/pki/hackucf.pem'', ''CERT'')]"

text \<open>
  The example environment serialises a manifest to its serial number and its barcode
  message only: enough to tell two passes apart.
\<close>

definition dumps_ex :: "pyval \<Rightarrow> bytes" where
  "dumps_ex m =
     (case py_path m serial_path of
        Some (PStr s) \<Rightarrow>
          (case py_path m message_path of Some (PStr i) \<Rightarrow> s @ '':'' @ i | _ \<Rightarrow> s)
      | _ \<Rightarrow> [])"

definition env_ex :: env where
  "env_ex = \<lparr>
     net = (\<lambda>n url. Response 200 ''AVATAR''),
     uuid4 = (\<lambda>n. replicate (Suc n) CHR ''a''),
     files = files_ex,
     json_dumps = dumps_ex,
     pkcs7_sign = (\<lambda>k c entries. Some ''SIGNATURE'')\<rparr>"

definition w0 :: world where
  "w0 = \<lparr>requests = [], uuids_drawn = 0\<rparr>"

definition w1_ex :: world where
  "w1_ex = \<lparr>requests = [avatar_ex, avatar_ex], uuids_drawn = 1\<rparr>"

definition w2_ex :: world where
  "w2_ex = \<lparr>requests = [avatar_ex, avatar_ex, avatar_ex, avatar_ex], uuids_drawn = 2\<rparr>"

definition p_ex :: pkpass where
  "p_ex = \<lparr>
     pass_package = [
       (''icon.png'', ''ICON1''), (''icon@2x.png'', ''ICON2''),
       (''thumbnail.png'', ''AVATAR''), (''thumbnail@2x.png'', ''AVATAR''),
       (''logo@2x.png'', ''OPS2''), (''logo.png'', ''OPS1''),
       (''pass.json'', ''a:1001'')],
     key = Some ''KEY'', cert = Some ''CERT'', signature = Some ''SIGNATURE''\<rparr>"

definition p_ex2 :: pkpass where
  "p_ex2 = p_ex\<lparr>pass_package := butlast (pass_package p_ex) @ [(''pass.json'', ''aa:1002'')]\<rparr>"

definition p_plain :: pkpass where
  "p_plain = \<lparr>
     pass_package = [
       (''icon.png'', ''ICON1''), (''icon@2x.png'', ''ICON2''),
       (''logo@2x.png'', ''REG2''), (''logo.png'', ''REG1''),
       (''pass.json'', ''a:1003'')],
     key = Some ''KEY'', cert = Some ''CERT'', signature = Some ''SIGNATURE''\<rparr>"

text \<open>
  An outage: every request, the one to the fallback URL too, is answered with status
  500.
\<close>

definition env_down :: env where
  "env_down = env_ex\<lparr>net := (\<lambda>n url. Response 500 [])\<rparr>"



text \<open>
  A picture that changes: the avatar URL is reachable at every request, and between
  the first request of the process and the second its content has changed.
\<close>

definition env_changing :: env where
  "env_changing = env_ex\<lparr>net := (\<lambda>n url.
     if n = 0 then Response 200 ''AVATAR'' else Response 200 ''CHANGED'')\<rparr>"

section \<open>Properties\<close>

subsection \<open>Returning computations\<close>

lemma bind_io_Inr:
  "bind_io m f w = Some (Inr r) \<longleftrightarrow> (\<exists>x w1. m w = Some (Inr (x, w1)) \<and> f x w1 = Some (Inr r))"
  by (auto simp: bind_io_def split: option.splits sum.splits)

lemma lift_Inr: "lift r w = Some (Inr (x, w')) \<longleftrightarrow> r = Inr x \<and> w' = w"
  by (auto simp: lift_def split: sum.splits)

lemma return_io_Inr: "return_io x w = Some (Inr (y, w')) \<longleftrightarrow> y = x \<and> w' = w"
  by (auto simp: return_io_def)

lemma uuid4_str_Inr:
  "uuid4_str env w = Some (Inr (s, w')) \<longleftrightarrow>
     s = uuid4 env (uuids_drawn w) \<and> w' = w\<lparr>uuids_drawn := Suc (uuids_drawn w)\<rparr>"
  by (auto simp: uuid4_str_def)

lemma open_rb_Inr: "open_rb env path = Inr b \<longleftrightarrow> files env path = Some b"
  by (auto simp: open_rb_def split: option.splits)

lemma sign_Inr:
  "sign env p = Inr q \<longleftrightarrow>
     (\<exists>k c s. key p = Some k \<and> cert p = Some c \<and>
        pkcs7_sign env k c (pass_package p) = Some s \<and> q = p\<lparr>signature := Some s\<rparr>)"
  by (auto simp: sign_def split: option.splits)

lemma bind_err_Inr: "bind_err r f = Inr y \<longleftrightarrow> (\<exists>x. r = Inr x \<and> f x = Inr y)"
  by (auto simp: bind_err_def split: sum.splits)

lemma py_get_Inr:
  "py_get v k dflt = Inr x \<longleftrightarrow>
     (\<exists>kvs. v = PDict kvs \<and> x = (case map_of kvs k of Some y \<Rightarrow> y | None \<Rightarrow> dflt))"
  by (cases v) auto

lemma py_add_Inr: "py_add x y = Inr z \<longleftrightarrow> (\<exists>a b. x = PStr a \<and> y = PStr b \<and> z = PStr (a @ b))"
  by (cases "(x, y)" rule: py_add.cases) auto

subsection \<open>The avatar fetch\<close>

lemma get_img_ok:
  "net env (length (requests w)) url = Response s b \<Longrightarrow> s < 400 \<Longrightarrow>
   get_img env url w = Some (Inr (b, w\<lparr>requests := requests w @ [url]\<rparr>))"
  by (subst get_img.simps) simp


lemma get_img_retry:
  "net env (length (requests w)) url = Response s b \<Longrightarrow> \<not> s < 400 \<Longrightarrow>
   get_img env url w = get_img env (PStr fallback_url) (w\<lparr>requests := requests w @ [url]\<rparr>)"
  by (subst get_img.simps) simp

text \<open>
  A call that returns, with a value or an exception, has met a request that was not
  answered with a failure status.
\<close>

lemma get_img_returns_ok:
  assumes "get_img env url w = Some y"
  shows "\<exists>n u. \<forall>s b. net env n u = Response s b \<longrightarrow> s < 400"
proof (rule get_img.raw_induct[where P = "\<lambda>e u w y. \<exists>n u. \<forall>s b. net e n u = Response s b \<longrightarrow> s < 400", OF _ assms])
  fix f :: "env \<Rightarrow> pyval \<Rightarrow> world \<Rightarrow> (error + bytes \<times> world) option"
    and e :: env and u :: pyval and v :: world and r :: "error + bytes \<times> world"
  assume IH: "\<And>e u v r. f e u v = Some r \<Longrightarrow> \<exists>n u. \<forall>s b. net e n u = Response s b \<longrightarrow> s < 400"
  assume eq: "(case net e (length (requests v)) u of
        Response status body \<Rightarrow>
          if status < 400 then Some (Inr (body, v\<lparr>requests := requests v @ [u]\<rparr>))
          else f e (PStr fallback_url) (v\<lparr>requests := requests v @ [u]\<rparr>)
      | RequestFailed \<Rightarrow> Some (Inl RequestException)) = Some r"
  show "\<exists>n u. \<forall>s b. net e n u = Response s b \<longrightarrow> s < 400"
  proof (cases "net e (length (requests v)) u")
    case RequestFailed
    then show ?thesis by (intro exI[of _ "length (requests v)"] exI[of _ u]) simp
  next
    case (Response s b)
    show ?thesis
    proof (cases "s < 400")
      case True
      with Response show ?thesis by (intro exI[of _ "length (requests v)"] exI[of _ u]) simp
    next
      case False
      with Response eq have "f e (PStr fallback_url) (v\<lparr>requests := requests v @ [u]\<rparr>) = Some r"
        by simp
      then show ?thesis by (rule IH)
    qed
  qed
qed

lemma get_img_never:
  assumes "\<And>n u. \<exists>s b. net env n u = Response s b \<and> 400 \<le> s"
  shows "get_img env url w = None"
proof (cases "get_img env url w")
  case (Some y)
  from get_img_returns_ok[OF this] obtain n u
    where *: "\<forall>s b. net env n u = Response s b \<longrightarrow> s < 400" by blast
  from assms[of n u] * show ?thesis by fastforce
qed simp

text \<open>The fetch draws no identifier.\<close>

lemma get_img_uuids_aux:
  assumes "get_img env url w = Some y"
  shows "\<forall>b w'. y = Inr (b, w') \<longrightarrow> uuids_drawn w' = uuids_drawn w"
proof (rule get_img.raw_induct[where P = "\<lambda>e u w y. \<forall>b w'. y = Inr (b, w') \<longrightarrow> uuids_drawn w' = uuids_drawn w", OF _ assms])
  fix f :: "env \<Rightarrow> pyval \<Rightarrow> world \<Rightarrow> (error + bytes \<times> world) option"
    and e :: env and u :: pyval and v :: world and r :: "error + bytes \<times> world"
  assume IH: "\<And>e u v r. f e u v = Some r \<Longrightarrow> \<forall>b w'. r = Inr (b, w') \<longrightarrow> uuids_drawn w' = uuids_drawn v"
  assume eq: "(case net e (length (requests v)) u of
        Response status body \<Rightarrow>
          if status < 400 then Some (Inr (body, v\<lparr>requests := requests v @ [u]\<rparr>))
          else f e (PStr fallback_url) (v\<lparr>requests := requests v @ [u]\<rparr>)
      | RequestFailed \<Rightarrow> Some (Inl RequestException)) = Some r"
  show "\<forall>b w'. r = Inr (b, w') \<longrightarrow> uuids_drawn w' = uuids_drawn v"
  proof (cases "net e (length (requests v)) u")
    case RequestFailed
    with eq show ?thesis by auto
  next
    case (Response s b)
    show ?thesis
    proof (cases "s < 400")
      case True
      with Response eq show ?thesis by auto
    next
      case False
      with Response eq have "f e (PStr fallback_url) (v\<lparr>requests := requests v @ [u]\<rparr>) = Some r"
        by simp
      from IH[OF this] show ?thesis by simp
    qed
  qed
qed

lemma get_img_uuids:
  "get_img env url w = Some (Inr (b, w')) \<Longrightarrow> uuids_drawn w' = uuids_drawn w"
  using get_img_uuids_aux by blast




subsection \<open>A returning call of the builder\<close>

lemma apple_wallet_Inr:
  assumes "apple_wallet env user_data w = Some (Inr (p, w'))"
  shows "\<exists>ops_email ico1 ico2 m discord discord_img ths logo2 logo1 k c sg.
     py_get user_data ''ops_email'' (PBool False) = Inr ops_email \<and>
     files env (asset_path ''icon.png'') = Some ico1 \<and>
     files env (asset_path ''icon@2x.png'') = Some ico2 \<and>
     pass_json (uuid4 env (uuids_drawn w)) user_data = Inr m \<and>
     py_get user_data ''discord'' (PDict []) = Inr discord \<and>
     py_get discord ''avatar'' (PBool False) = Inr discord_img \<and>
     thumbnails_of env discord_img (w\<lparr>uuids_drawn := Suc (uuids_drawn w)\<rparr>) ths w' \<and>
     files env (asset_path (if py_truthy ops_email then ''logo_ops@2x.png'' else ''logo_reg@2x.png'')) = Some logo2 \<and>
     files env (asset_path (if py_truthy ops_email then ''logo_ops.png'' else ''logo_reg.png'')) = Some logo1 \<and>
     files env key_path = Some k \<and> files env cert_path = Some c \<and>
     pkcs7_sign env k c (pass_package p) = Some sg \<and>
     p = \<lparr>pass_package = [(''icon.png'', ico1), (''icon@2x.png'', ico2)] @ ths @
            [(''logo@2x.png'', logo2), (''logo.png'', logo1), (''pass.json'', json_dumps env m)],
          key = Some k, cert = Some c, signature = Some sg\<rparr>"
  using assms
  unfolding apple_wallet_def Let_def thumbnails_of_def
  by (cases "py_get user_data ''ops_email'' (PBool False)"; cases "py_get user_data ''discord'' (PDict [])")
     (fastforce simp: bind_io_Inr lift_Inr return_io_Inr uuid4_str_Inr open_rb_Inr sign_Inr
        PKPass_def add_to_pass_package_def split: if_splits)+

lemma thumbnails_of_uuids:
  "thumbnails_of env img w ths w' \<Longrightarrow> uuids_drawn w' = uuids_drawn w"
  by (auto simp: thumbnails_of_def dest!: get_img_uuids split: if_splits)

lemma thumbnails_of_names:
  "thumbnails_of env img w ths w' \<Longrightarrow>
     map fst ths = (if py_truthy img then [''thumbnail.png'', ''thumbnail@2x.png''] else [])"
  by (auto simp: thumbnails_of_def split: if_splits)

text \<open>The manifest of a profile that is a dictionary.\<close>

lemma pass_json_Inr:
  "pass_json serial (PDict d) = Inr m \<longleftrightarrow>
     (\<exists>kvs a b.
        (case map_of d ''discord'' of Some v \<Rightarrow> v | None \<Rightarrow> PDict []) = PDict kvs \<and>
        (case map_of d ''first_name'' of Some v \<Rightarrow> v | None \<Rightarrow> PStr []) = PStr a \<and>
        (case map_of d ''surname'' of Some v \<Rightarrow> v | None \<Rightarrow> PStr []) = PStr b \<and>
        m = manifest serial
              (case map_of d ''id'' of Some v \<Rightarrow> v | None \<Rightarrow> PStr ''Unknown_ID'')
              (case map_of kvs ''username'' of Some v \<Rightarrow> v | None \<Rightarrow> PNone)
              (PStr (a @ '' '' @ b))
              (case map_of d ''infra_email'' of Some v \<Rightarrow> v | None \<Rightarrow> PStr ''Not Provisioned''))"
  unfolding pass_json_def
  by (auto simp: bind_err_Inr py_get_Inr py_add_Inr)

lemma manifest_serial: "py_path (manifest s msg alt nm ie) serial_path = Some (PStr s)"
  by (simp add: manifest_def serial_path_def)

lemma manifest_message: "py_path (manifest s msg alt nm ie) message_path = Some msg"
  by (simp add: manifest_def message_path_def)

lemma manifest_alt_text: "py_path (manifest s msg alt nm ie) alt_text_path = Some alt"
  by (simp add: manifest_def alt_text_path_def)

lemma manifest_name: "py_path (manifest s msg alt nm ie) name_path = Some nm"
  by (simp add: manifest_def name_path_def)

lemma manifest_infra: "py_path (manifest s msg alt nm ie) infra_path = Some ie"
  by (simp add: manifest_def infra_path_def)

lemma manifest_blank:
  "py_replace (py_replace (manifest s msg alt nm ie) serial_path x) message_path y =
   py_replace (py_replace (manifest s' msg' alt nm ie) serial_path x) message_path y"
  by (simp add: manifest_def serial_path_def message_path_def)

subsection \<open>The example runs\<close>

lemmas io_defs = bind_io_def lift_def return_io_def uuid4_str_def open_rb_def sign_def PKPass_def
  add_to_pass_package_def bind_err_def Let_def

lemmas ex_defs = env_ex_def dumps_ex_def manifest_serial manifest_message files_ex_def asset_path_def key_path_def cert_path_def avatar_ex_def
  profile_ex_def w0_def

lemma run_ex: "apple_wallet env_ex user_ex w0 = Some (Inr (p_ex, w1_ex))"
  unfolding apple_wallet_def pass_json_def
  by (simp add: io_defs ex_defs user_ex_def w1_ex_def p_ex_def get_img_ok)

lemma run_ex2: "apple_wallet env_ex user_ex2 w1_ex = Some (Inr (p_ex2, w2_ex))"
  unfolding apple_wallet_def pass_json_def
  by (simp add: io_defs ex_defs user_ex2_def w2_ex_def w1_ex_def p_ex2_def p_ex_def get_img_ok)

lemma run_plain: "apple_wallet env_ex user_plain w0 = Some (Inr (p_plain, w0\<lparr>uuids_drawn := 1\<rparr>))"
  unfolding apple_wallet_def pass_json_def
  by (simp add: io_defs ex_defs user_plain_def p_plain_def)



section \<open>The claims\<close>

text \<open>
  C1. The claim: when the fetch of an avatar URL fails with a status of 400 or more,
  \<open>get_img\<close> falls back once to the fixed URL and recurses no further, even if
  the fallback fails too. The source has no such bound: each failing answer, the
  fallback's too, leads to one more call on the fallback URL. During an outage, after
  the request for the avatar and two requests for the fallback, the call is still a
  call of \<open>get_img\<close> on the fallback URL, and it never returns. (CPython ends the
  descent with \<open>RecursionError\<close> at the recursion limit of the interpreter, after
  about a thousand requests.)
\<close>

theorem get_img_outage_never_returns:
  "get_img env_down avatar_ex w0 =
     get_img env_down (PStr fallback_url)
       (w0\<lparr>requests := [avatar_ex, PStr fallback_url, PStr fallback_url]\<rparr>) \<and>
   get_img env_down avatar_ex w0 = None"
proof
  let ?fb = "PStr fallback_url"
  have down: "net env_down n u = Response 500 []" for n u
    by (simp add: env_down_def)
  have step: "get_img env_down u w = get_img env_down ?fb (w\<lparr>requests := requests w @ [u]\<rparr>)" for u w
    by (rule get_img_retry[OF down]) simp
  have "get_img env_down avatar_ex w0 = get_img env_down ?fb (w0\<lparr>requests := [avatar_ex]\<rparr>)"
    using step[of avatar_ex w0] by (simp add: w0_def)
  also have "\<dots> = get_img env_down ?fb (w0\<lparr>requests := [avatar_ex, ?fb]\<rparr>)"
    using step[of ?fb "w0\<lparr>requests := [avatar_ex]\<rparr>"] by simp
  also have "\<dots> = get_img env_down ?fb (w0\<lparr>requests := [avatar_ex, ?fb, ?fb]\<rparr>)"
    using step[of ?fb "w0\<lparr>requests := [avatar_ex, ?fb]\<rparr>"] by simp
  finally show "get_img env_down avatar_ex w0 =
     get_img env_down ?fb (w0\<lparr>requests := [avatar_ex, ?fb, ?fb]\<rparr>)" .
  show "get_img env_down avatar_ex w0 = None"
    by (rule get_img_never) (simp add: down)
qed

text \<open>
  C10. The entries the builder adds to the pass package have pairwise distinct names:
  in the package of every call that returns, no name occurs twice.
\<close>

theorem entry_names_distinct:
  assumes "apple_wallet env user_data w = Some (Inr (p, w'))"
  shows "distinct (map fst (pass_package p))"
proof -
  from apple_wallet_Inr[OF assms] obtain img ths ico1 ico2 logo2 logo1 pj w1 where
    ths: "thumbnails_of env img w1 ths w'" and
    p: "pass_package p = [(''icon.png'', ico1), (''icon@2x.png'', ico2)] @ ths @
            [(''logo@2x.png'', logo2), (''logo.png'', logo1), (''pass.json'', pj)]"
    by fastforce
  from thumbnails_of_names[OF ths] p show ?thesis
    by (simp split: if_splits)
qed

theorem entry_names_distinct_witness:
  "apple_wallet env_ex user_ex w0 = Some (Inr (p_ex, w1_ex)) \<and> distinct (map fst (pass_package p_ex))"
  using entry_names_distinct[OF run_ex] run_ex by simp



text \<open>
  C4. The builder selects the operator logo pair, at both scales, if and only if the
  profile's \<open>ops_email\<close> is present and non-empty (Python's truth value of the field:
  for a string, that it is not empty; \<open>None\<close> counts as absent), and the regular
  member's pair otherwise: the entries \<open>logo.png\<close> and \<open>logo@2x.png\<close> of a returned
  package are the contents of the files of the role.
\<close>

theorem logo_follows_ops_email:
  assumes "apple_wallet env (PDict d) w = Some (Inr (p, w'))"
  shows "map_of (pass_package p) ''logo.png'' =
           files env (asset_path
             (if \<exists>v. map_of d ''ops_email'' = Some v \<and> py_truthy v
              then ''logo_ops.png'' else ''logo_reg.png'')) \<and>
         map_of (pass_package p) ''logo@2x.png'' =
           files env (asset_path
             (if \<exists>v. map_of d ''ops_email'' = Some v \<and> py_truthy v
              then ''logo_ops@2x.png'' else ''logo_reg@2x.png'')) \<and>
         (\<forall>s. map_of d ''ops_email'' = Some (PStr s) \<longrightarrow>
            ((\<exists>v. map_of d ''ops_email'' = Some v \<and> py_truthy v) \<longleftrightarrow> s \<noteq> []))"
proof -
  let ?ops = "\<exists>v. map_of d ''ops_email'' = Some v \<and> py_truthy v"
  from apple_wallet_Inr[OF assms] obtain ops_email ico1 ico2 pj img ths logo2 logo1 w1 where
    ops: "py_get (PDict d) ''ops_email'' (PBool False) = Inr ops_email" and
    ths: "thumbnails_of env img w1 ths w'" and
    l2: "files env (asset_path (if py_truthy ops_email then ''logo_ops@2x.png'' else ''logo_reg@2x.png'')) = Some logo2" and
    l1: "files env (asset_path (if py_truthy ops_email then ''logo_ops.png'' else ''logo_reg.png'')) = Some logo1" and
    p: "pass_package p = [(''icon.png'', ico1), (''icon@2x.png'', ico2)] @ ths @
            [(''logo@2x.png'', logo2), (''logo.png'', logo1), (''pass.json'', pj)]"
    by fastforce
  from ops have truthy: "py_truthy ops_email \<longleftrightarrow> ?ops"
    by (auto split: option.splits)
  have names: "map fst ths = [''thumbnail.png'', ''thumbnail@2x.png''] \<or> ths = []"
    using thumbnails_of_names[OF ths] by (auto split: if_splits)
  have m1: "map_of (pass_package p) ''logo.png'' = Some logo1"
    using names p by (auto simp: map_of_eq_None_iff image_iff)
  have m2: "map_of (pass_package p) ''logo@2x.png'' = Some logo2"
    using names p by (auto simp: map_of_eq_None_iff image_iff)
  show ?thesis
    using m1 m2 l1 l2 truthy by auto
qed

theorem logo_follows_ops_email_witness:
  "apple_wallet env_ex user_ex w0 = Some (Inr (p_ex, w1_ex)) \<and>
   map_of (pass_package p_ex) ''logo.png'' = files env_ex (asset_path ''logo_ops.png'') \<and>
   map_of (pass_package p_ex) ''logo@2x.png'' = files env_ex (asset_path ''logo_ops@2x.png'') \<and>
   apple_wallet env_ex user_plain w0 = Some (Inr (p_plain, w0\<lparr>uuids_drawn := 1\<rparr>)) \<and>
   map_of (pass_package p_plain) ''logo.png'' = files env_ex (asset_path ''logo_reg.png'') \<and>
   map_of (pass_package p_plain) ''logo@2x.png'' = files env_ex (asset_path ''logo_reg@2x.png'')"
  using logo_follows_ops_email[OF run_ex[unfolded user_ex_def profile_ex_def]]
    logo_follows_ops_email[OF run_plain[unfolded user_plain_def]] run_ex run_plain
  by simp

text \<open>
  C3 claims that the barcode's alt-text is the Discord username when one is present
  and a literal placeholder string otherwise. The default of the lookup is \<open>None\<close>:
  for a profile without a Discord account the alt-text is \<open>None\<close>, which
  \<open>json.dumps\<close> writes as \<open>null\<close>.
\<close>

theorem barcode_alt_text_none_counterexample:
  "field (pass_json ''a'' user_plain) alt_text_path = Some PNone"
  by (simp add: field_def pass_json_def user_plain_def bind_err_def manifest_alt_text)

text \<open>
  C3, as the source has it. The barcode message is the profile's \<open>id\<close> (the string
  \<open>Unknown_ID\<close> when the profile has none). The alt-text is the Discord username when
  the profile has one, and \<open>None\<close> when it has none.
\<close>

theorem barcode_of_profile:
  assumes "pass_json serial (PDict d) = Inr m"
  shows "py_path m message_path =
           Some (case map_of d ''id'' of Some v \<Rightarrow> v | None \<Rightarrow> PStr ''Unknown_ID'') \<and>
         (map_of d ''discord'' = None \<longrightarrow> py_path m alt_text_path = Some PNone) \<and>
         (\<forall>kvs. map_of d ''discord'' = Some (PDict kvs) \<longrightarrow>
            py_path m alt_text_path =
              Some (case map_of kvs ''username'' of Some u \<Rightarrow> u | None \<Rightarrow> PNone))"
  using assms
  by (auto simp: pass_json_Inr manifest_message manifest_alt_text)

theorem barcode_of_profile_witness:
  "pass_json ''a'' user_ex = Inr (manifest ''a'' (PStr ''1001'') (PStr ''ada'')
      (PStr ''Ada Lovelace'') (PStr ''ada@infra.hackucf.org'')) \<and>
   py_path (manifest ''a'' (PStr ''1001'') (PStr ''ada'')
      (PStr ''Ada Lovelace'') (PStr ''ada@infra.hackucf.org'')) message_path = Some (PStr ''1001'') \<and>
   py_path (manifest ''a'' (PStr ''1001'') (PStr ''ada'')
      (PStr ''Ada Lovelace'') (PStr ''ada@infra.hackucf.org'')) alt_text_path = Some (PStr ''ada'')"
proof -
  have run: "pass_json ''a'' (PDict [
     (''id'', PStr ''1001''),
     (''first_name'', PStr ''Ada''),
     (''surname'', PStr ''Lovelace''),
     (''ops_email'', PStr ''ada@hackucf.org''),
     (''infra_email'', PStr ''ada@infra.hackucf.org''),
     (''discord'', PDict [(''username'', PStr ''ada''), (''avatar'', avatar_ex)])]) =
      Inr (manifest ''a'' (PStr ''1001'') (PStr ''ada'')
      (PStr ''Ada Lovelace'') (PStr ''ada@infra.hackucf.org''))"
    by (simp add: pass_json_def bind_err_def)
  from barcode_of_profile[OF run] run show ?thesis
    by (simp add: user_ex_def profile_ex_def)
qed

text \<open>
  C5 claims the placeholder \<open>Not Provisioned\<close> for every profile whose
  \<open>infra_email\<close> is empty. The default of \<open>dict.get\<close> applies to a missing key
  only: an \<open>infra_email\<close> that is the empty string stays the empty string.
\<close>

theorem infra_email_empty_counterexample:
  "field (pass_json ''a'' (PDict [(''infra_email'', PStr [])])) infra_path = Some (PStr [])"
  by (simp add: field_def pass_json_def bind_err_def manifest_infra)

text \<open>
  C5, as the source has it. The secondary field is \<open>Not Provisioned\<close> for a profile
  that has no \<open>infra_email\<close> key; a field that is present is passed on as it is, the
  empty string too.
\<close>

theorem infra_email_of_profile:
  assumes "pass_json serial (PDict d) = Inr m"
  shows "py_path m infra_path =
           Some (case map_of d ''infra_email'' of
                   None \<Rightarrow> PStr ''Not Provisioned'' | Some v \<Rightarrow> v)"
  using assms
  by (auto simp: pass_json_Inr manifest_infra)

theorem infra_email_of_profile_witness:
  "pass_json ''a'' user_plain =
     Inr (manifest ''a'' (PStr ''1003'') PNone (PStr ''Bo '') (PStr ''Not Provisioned'')) \<and>
   py_path (manifest ''a'' (PStr ''1003'') PNone (PStr ''Bo '') (PStr ''Not Provisioned''))
     infra_path = Some (PStr ''Not Provisioned'')"
proof -
  have run: "pass_json ''a'' (PDict [(''id'', PStr ''1003''), (''first_name'', PStr ''Bo''),
      (''surname'', PStr [])]) =
      Inr (manifest ''a'' (PStr ''1003'') PNone (PStr ''Bo '') (PStr ''Not Provisioned''))"
    by (simp add: pass_json_def bind_err_def)
  from infra_email_of_profile[OF run] run show ?thesis
    by (simp add: user_plain_def)
qed

text \<open>
  C7. The primary display field is the first name, a single space and the surname.
  A name the profile lacks counts as the empty string, and an empty name is no
  failure: for names that are strings or absent (and a \<open>discord\<close> entry that is a
  dictionary or absent, which the barcode needs) the manifest is built, with whatever
  is present around the space.
\<close>

theorem name_field_of_profile:
  assumes "map_of d ''first_name'' = None \<and> a = [] \<or> map_of d ''first_name'' = Some (PStr a)"
    and "map_of d ''surname'' = None \<and> b = [] \<or> map_of d ''surname'' = Some (PStr b)"
    and "map_of d ''discord'' = None \<or> (\<exists>kvs. map_of d ''discord'' = Some (PDict kvs))"
  shows "\<exists>m. pass_json serial (PDict d) = Inr m \<and>
           py_path m name_path = Some (PStr (a @ '' '' @ b))"
proof -
  from assms(3) obtain kvs where
    "(case map_of d ''discord'' of Some v \<Rightarrow> v | None \<Rightarrow> PDict []) = PDict kvs"
    by (auto split: option.splits)
  moreover from assms(1) have
    "(case map_of d ''first_name'' of Some v \<Rightarrow> v | None \<Rightarrow> PStr []) = PStr a"
    by auto
  moreover from assms(2) have
    "(case map_of d ''surname'' of Some v \<Rightarrow> v | None \<Rightarrow> PStr []) = PStr b"
    by auto
  ultimately have "pass_json serial (PDict d) = Inr (manifest serial
              (case map_of d ''id'' of Some v \<Rightarrow> v | None \<Rightarrow> PStr ''Unknown_ID'')
              (case map_of kvs ''username'' of Some v \<Rightarrow> v | None \<Rightarrow> PNone)
              (PStr (a @ '' '' @ b))
              (case map_of d ''infra_email'' of Some v \<Rightarrow> v | None \<Rightarrow> PStr ''Not Provisioned''))"
    unfolding pass_json_Inr by blast
  then show ?thesis by (simp add: manifest_name)
qed

theorem name_field_of_profile_witness:
  "(\<exists>m. pass_json ''a'' (PDict [(''first_name'', PStr ''Ada''), (''surname'', PStr ''Lovelace'')]) = Inr m \<and>
        py_path m name_path = Some (PStr ''Ada Lovelace'')) \<and>
   (\<exists>m. pass_json ''a'' (PDict [(''first_name'', PStr []), (''surname'', PStr ''Lovelace'')]) = Inr m \<and>
        py_path m name_path = Some (PStr '' Lovelace'')) \<and>
   (\<exists>m. pass_json ''a'' (PDict [(''first_name'', PStr ''Ada'')]) = Inr m \<and>
        py_path m name_path = Some (PStr ''Ada ''))"
  using name_field_of_profile[of "[(''first_name'', PStr ''Ada''), (''surname'', PStr ''Lovelace'')]" "''Ada''" "''Lovelace''" "''a''"]
    name_field_of_profile[of "[(''first_name'', PStr []), (''surname'', PStr ''Lovelace'')]" "[]" "''Lovelace''" "''a''"]
    name_field_of_profile[of "[(''first_name'', PStr ''Ada'')]" "''Ada''" "[]" "''a''"]
  by simp

text \<open>
  C6 claims two thumbnail entries of identical content for every profile with a
  reachable avatar URL. The source fetches the URL once for each entry. When both
  requests are answered with status 200 and the picture has changed in between, the
  two entries differ.
\<close>

theorem thumbnails_differ_counterexample:
  "net env_changing (length (requests w0)) avatar_ex = Response 200 ''AVATAR'' \<and>
   net env_changing (Suc (length (requests w0))) avatar_ex = Response 200 ''CHANGED'' \<and>
   map_option thumbnails (returned (apple_wallet env_changing user_ex w0)) =
     Some [(''thumbnail.png'', ''AVATAR''), (''thumbnail@2x.png'', ''CHANGED'')]"
  unfolding apple_wallet_def pass_json_def
  by (simp add: io_defs ex_defs env_changing_def user_ex_def returned_def thumbnails_def
      get_img_ok)

text \<open>
  C6, as the source has it. A profile without an avatar URL gets no thumbnail entry.
  A profile with one gets exactly two, \<open>thumbnail.png\<close> and \<open>thumbnail@2x.png\<close>, each
  with the bytes of its own call of \<open>get_img\<close>. When the URL is reachable at both
  requests, the first entry is the body of the first answer and the second entry the
  body of the second: the two are identical exactly when the two bodies are.
\<close>

theorem thumbnails_of_profile:
  assumes "apple_wallet env (PDict d) w = Some (Inr (p, w'))"
    and "py_get (PDict d) ''discord'' (PDict []) = Inr discord"
    and "py_get discord ''avatar'' (PBool False) = Inr avatar"
  shows "(\<not> py_truthy avatar \<longrightarrow> thumbnails p = []) \<and>
         (py_truthy avatar \<longrightarrow>
            (\<exists>b1 b2 w1. get_img env avatar (w\<lparr>uuids_drawn := Suc (uuids_drawn w)\<rparr>) = Some (Inr (b1, w1)) \<and>
               get_img env avatar w1 = Some (Inr (b2, w')) \<and>
               thumbnails p = [(''thumbnail.png'', b1), (''thumbnail@2x.png'', b2)])) \<and>
         (\<forall>s b s' b'. py_truthy avatar \<and>
            net env (length (requests w)) avatar = Response s b \<and> s < 400 \<and>
            net env (Suc (length (requests w))) avatar = Response s' b' \<and> s' < 400 \<longrightarrow>
            thumbnails p = [(''thumbnail.png'', b), (''thumbnail@2x.png'', b')])"
proof -
  from apple_wallet_Inr[OF assms(1)] assms(2,3) obtain ico1 ico2 ths logo2 logo1 pj where
    ths: "thumbnails_of env avatar (w\<lparr>uuids_drawn := Suc (uuids_drawn w)\<rparr>) ths w'" and
    p: "pass_package p = [(''icon.png'', ico1), (''icon@2x.png'', ico2)] @ ths @
            [(''logo@2x.png'', logo2), (''logo.png'', logo1), (''pass.json'', pj)]"
    by fastforce
  have none: "thumbnails p = []" if "\<not> py_truthy avatar"
    using that ths p by (simp add: thumbnails_of_def thumbnails_def)
  have two: "\<exists>b1 b2 w1. get_img env avatar (w\<lparr>uuids_drawn := Suc (uuids_drawn w)\<rparr>) = Some (Inr (b1, w1)) \<and>
               get_img env avatar w1 = Some (Inr (b2, w')) \<and>
               thumbnails p = [(''thumbnail.png'', b1), (''thumbnail@2x.png'', b2)]"
    if "py_truthy avatar"
    using that ths p by (auto simp: thumbnails_of_def thumbnails_def)
  have same: "thumbnails p = [(''thumbnail.png'', b), (''thumbnail@2x.png'', b')]"
    if t: "py_truthy avatar" and
      r1: "net env (length (requests w)) avatar = Response s b" "s < 400" and
      r2: "net env (Suc (length (requests w))) avatar = Response s' b'" "s' < 400"
    for s b s' b'
  proof -
    let ?w = "w\<lparr>uuids_drawn := Suc (uuids_drawn w)\<rparr>"
    have g1: "get_img env avatar ?w = Some (Inr (b, ?w\<lparr>requests := requests ?w @ [avatar]\<rparr>))"
      by (rule get_img_ok[of _ _ _ s]) (use r1 in simp_all)
    have g2: "get_img env avatar (?w\<lparr>requests := requests ?w @ [avatar]\<rparr>) =
        Some (Inr (b', ?w\<lparr>requests := requests ?w @ [avatar, avatar]\<rparr>))"
      using get_img_ok[of env "?w\<lparr>requests := requests ?w @ [avatar]\<rparr>" avatar s' b'] r2 by simp
    from two[OF t] g1 g2 show ?thesis by auto
  qed
  from none two same show ?thesis by blast
qed

theorem thumbnails_of_profile_witness:
  "apple_wallet env_ex user_ex w0 = Some (Inr (p_ex, w1_ex)) \<and>
   py_truthy avatar_ex \<and>
   net env_ex (length (requests w0)) avatar_ex = Response 200 ''AVATAR'' \<and>
   net env_ex (Suc (length (requests w0))) avatar_ex = Response 200 ''AVATAR'' \<and>
   thumbnails p_ex = [(''thumbnail.png'', ''AVATAR''), (''thumbnail@2x.png'', ''AVATAR'')] \<and>
   apple_wallet env_ex user_plain w0 = Some (Inr (p_plain, w0\<lparr>uuids_drawn := 1\<rparr>)) \<and>
   \<not> py_truthy (PBool False) \<and>
   thumbnails p_plain = []"
proof -
  have a: "py_get (PDict [(''id'', PStr ''1001''), (''first_name'', PStr ''Ada''),
       (''surname'', PStr ''Lovelace''), (''ops_email'', PStr ''ada@hackucf.org''),
       (''infra_email'', PStr ''ada@infra.hackucf.org''),
       (''discord'', PDict [(''username'', PStr ''ada''), (''avatar'', avatar_ex)])])
      ''discord'' (PDict []) = Inr (PDict [(''username'', PStr ''ada''), (''avatar'', avatar_ex)])"
    by simp
  have b: "py_get (PDict [(''username'', PStr ''ada''), (''avatar'', avatar_ex)]) ''avatar'' (PBool False) =
      Inr avatar_ex"
    by simp
  have c: "py_get (PDict [(''id'', PStr ''1003''), (''first_name'', PStr ''Bo''), (''surname'', PStr [])])
      ''discord'' (PDict []) = Inr (PDict [])"
    by simp
  have d: "py_get (PDict []) ''avatar'' (PBool False) = Inr (PBool False)"
    by simp
  have t: "py_truthy avatar_ex" by (simp add: avatar_ex_def)
  have n: "net env_ex k avatar_ex = Response 200 ''AVATAR''" for k
    by (simp add: env_ex_def)
  from thumbnails_of_profile[OF run_ex[unfolded user_ex_def profile_ex_def] a b] t n
  have "thumbnails p_ex = [(''thumbnail.png'', ''AVATAR''), (''thumbnail@2x.png'', ''AVATAR'')]"
    by simp
  moreover from thumbnails_of_profile[OF run_plain[unfolded user_plain_def] c d]
  have "thumbnails p_plain = []" by simp
  ultimately show ?thesis using run_ex run_plain t n by simp
qed

lemma pass_json_manifest:
  "pass_json serial user_data = Inr m \<Longrightarrow> \<exists>msg alt nm ie. m = manifest serial msg alt nm ie"
  by (auto simp: pass_json_def bind_err_Inr)

lemma apple_wallet_world:
  assumes "apple_wallet env user_data w = Some (Inr (p, w'))"
  shows "uuids_drawn w' = Suc (uuids_drawn w)"
proof -
  from apple_wallet_Inr[OF assms] obtain img ths where
    "thumbnails_of env img (w\<lparr>uuids_drawn := Suc (uuids_drawn w)\<rparr>) ths w'"
    by blast
  from thumbnails_of_uuids[OF this] show ?thesis by simp
qed

lemma apple_wallet_manifest:
  assumes "apple_wallet env user_data w = Some (Inr (p, w'))"
  shows "\<exists>m. pass_json (uuid4 env (uuids_drawn w)) user_data = Inr m \<and>
           last (pass_package p) = (''pass.json'', json_dumps env m)"
proof -
  from apple_wallet_Inr[OF assms] obtain ico1 ico2 m ths logo2 logo1 where
    "pass_json (uuid4 env (uuids_drawn w)) user_data = Inr m"
    "pass_package p = [(''icon.png'', ico1), (''icon@2x.png'', ico2)] @ ths @
            [(''logo@2x.png'', logo2), (''logo.png'', logo1), (''pass.json'', json_dumps env m)]"
    by fastforce
  then show ?thesis by simp
qed

lemma uuid4_ex_inj: "inj (uuid4 env_ex)"
proof (rule injI)
  fix x y assume "uuid4 env_ex x = uuid4 env_ex y"
  then have "length (replicate (Suc x) CHR ''a'') = length (replicate (Suc y) CHR ''a'')"
    by (simp add: env_ex_def)
  then show "x = y" by simp
qed

text \<open>
  C8. Every call of the builder draws its serial number afresh from the generator of
  unique identifiers, and nothing is kept from one call to the next: given that the
  generator never repeats an identifier, the manifests of two calls, the second made
  in any world after the first, have different serial numbers, whatever the profiles,
  identical ones too.
\<close>

theorem serial_numbers_fresh:
  assumes "inj (uuid4 env)"
    and "apple_wallet env u1 w = Some (Inr (p1, w1))"
    and "uuids_drawn w1 \<le> uuids_drawn w2"
    and "apple_wallet env u2 w2 = Some (Inr (p2, w2'))"
  shows "\<exists>m1 m2.
     pass_json (uuid4 env (uuids_drawn w)) u1 = Inr m1 \<and>
     pass_json (uuid4 env (uuids_drawn w2)) u2 = Inr m2 \<and>
     last (pass_package p1) = (''pass.json'', json_dumps env m1) \<and>
     last (pass_package p2) = (''pass.json'', json_dumps env m2) \<and>
     py_path m1 serial_path = Some (PStr (uuid4 env (uuids_drawn w))) \<and>
     py_path m2 serial_path = Some (PStr (uuid4 env (uuids_drawn w2))) \<and>
     py_path m1 serial_path \<noteq> py_path m2 serial_path"
proof -
  from apple_wallet_manifest[OF assms(2)] obtain m1 where
    m1: "pass_json (uuid4 env (uuids_drawn w)) u1 = Inr m1"
      "last (pass_package p1) = (''pass.json'', json_dumps env m1)" by blast
  from apple_wallet_manifest[OF assms(4)] obtain m2 where
    m2: "pass_json (uuid4 env (uuids_drawn w2)) u2 = Inr m2"
      "last (pass_package p2) = (''pass.json'', json_dumps env m2)" by blast
  from pass_json_manifest[OF m1(1)] have s1: "py_path m1 serial_path = Some (PStr (uuid4 env (uuids_drawn w)))"
    by (auto simp: manifest_serial)
  from pass_json_manifest[OF m2(1)] have s2: "py_path m2 serial_path = Some (PStr (uuid4 env (uuids_drawn w2)))"
    by (auto simp: manifest_serial)
  from apple_wallet_world[OF assms(2)] assms(3) have "uuids_drawn w \<noteq> uuids_drawn w2"
    by simp
  with assms(1) have "uuid4 env (uuids_drawn w) \<noteq> uuid4 env (uuids_drawn w2)"
    by (simp add: inj_eq)
  with m1 m2 s1 s2 show ?thesis by auto
qed

theorem serial_numbers_fresh_witness:
  "inj (uuid4 env_ex) \<and>
   apple_wallet env_ex user_ex w0 = Some (Inr (p_ex, w1_ex)) \<and>
   uuids_drawn w1_ex \<le> uuids_drawn w1_ex \<and>
   apple_wallet env_ex user_ex w1_ex = Some (Inr (p_ex\<lparr>pass_package := butlast (pass_package p_ex) @ [(''pass.json'', ''aa:1001'')]\<rparr>, w2_ex)) \<and>
   (\<exists>m1 m2.
     pass_json (uuid4 env_ex (uuids_drawn w0)) user_ex = Inr m1 \<and>
     pass_json (uuid4 env_ex (uuids_drawn w1_ex)) user_ex = Inr m2 \<and>
     py_path m1 serial_path = Some (PStr ''a'') \<and>
     py_path m2 serial_path = Some (PStr ''aa''))"
proof -
  have again: "apple_wallet env_ex user_ex w1_ex =
      Some (Inr (p_ex\<lparr>pass_package := butlast (pass_package p_ex) @ [(''pass.json'', ''aa:1001'')]\<rparr>, w2_ex))"
    unfolding apple_wallet_def pass_json_def
    by (simp add: io_defs ex_defs user_ex_def w2_ex_def w1_ex_def p_ex_def get_img_ok)
  have u: "uuid4 env_ex (uuids_drawn w0) = ''a''" "uuid4 env_ex (uuids_drawn w1_ex) = ''aa''"
    by (simp_all add: env_ex_def w0_def w1_ex_def)
  from serial_numbers_fresh[OF uuid4_ex_inj run_ex order_refl again] u
  show ?thesis using uuid4_ex_inj run_ex again by auto
qed

lemma thumbnails_of_fun:
  "thumbnails_of env img w ths w' \<Longrightarrow> thumbnails_of env img w ths2 w2 \<Longrightarrow> ths2 = ths \<and> w2 = w'"
  by (auto simp: thumbnails_of_def split: if_splits)

lemma thumbnails_of_lookup:
  "thumbnails_of env img w ths w' \<Longrightarrow> n \<noteq> ''thumbnail.png'' \<Longrightarrow> n \<noteq> ''thumbnail@2x.png'' \<Longrightarrow>
     map_of ths n = None"
  by (auto simp: thumbnails_of_def split: if_splits)

text \<open>
  C2 claims that the passes of two profiles differing only in \<open>id\<close> differ in the
  barcode payload and in nothing else. Each pass has a serial number of its own: two
  builds, one after the other, of the example profile under two ids get the serial
  numbers \<open>a\<close> and \<open>aa\<close>.
\<close>

theorem serial_differs_counterexample:
  "apple_wallet env_ex user_ex w0 = Some (Inr (p_ex, w1_ex)) \<and>
   apple_wallet env_ex user_ex2 w1_ex = Some (Inr (p_ex2, w2_ex)) \<and>
   field (pass_json (uuid4 env_ex (uuids_drawn w0)) user_ex) serial_path = Some (PStr ''a'') \<and>
   field (pass_json (uuid4 env_ex (uuids_drawn w1_ex)) user_ex2) serial_path = Some (PStr ''aa'')"
  using run_ex run_ex2
  by (simp add: field_def pass_json_def bind_err_def manifest_serial user_ex_def user_ex2_def
      profile_ex_def env_ex_def w0_def w1_ex_def)

text \<open>
  C2, as the source has it. Two profiles that differ only in \<open>id\<close> give passes with
  different barcode messages. The rest of the two passes is identical except for what
  each call takes from the world: the serial number, drawn afresh for each pass, and
  the bytes of the thumbnails, fetched at each call. Apart from serial number and
  message the manifests are equal; the entries have the same names in the same order;
  icons, logos, key and certificate are equal. Two calls from the same world agree on
  the serial number and the thumbnails too.
\<close>

theorem passes_differing_in_id:
  assumes id1: "map_of d1 ''id'' = Some i1" and id2: "map_of d2 ''id'' = Some i2"
    and neq: "i1 \<noteq> i2"
    and rest: "\<forall>k. k \<noteq> ''id'' \<longrightarrow> map_of d1 k = map_of d2 k"
    and run1: "apple_wallet env (PDict d1) w1 = Some (Inr (p1, w1'))"
    and run2: "apple_wallet env (PDict d2) w2 = Some (Inr (p2, w2'))"
  shows "\<exists>m1 m2.
     pass_json (uuid4 env (uuids_drawn w1)) (PDict d1) = Inr m1 \<and>
     pass_json (uuid4 env (uuids_drawn w2)) (PDict d2) = Inr m2 \<and>
     last (pass_package p1) = (''pass.json'', json_dumps env m1) \<and>
     last (pass_package p2) = (''pass.json'', json_dumps env m2) \<and>
     py_path m1 message_path = Some i1 \<and> py_path m2 message_path = Some i2 \<and>
     py_path m1 message_path \<noteq> py_path m2 message_path \<and>
     py_replace (py_replace m1 serial_path PNone) message_path PNone =
       py_replace (py_replace m2 serial_path PNone) message_path PNone \<and>
     map fst (pass_package p1) = map fst (pass_package p2) \<and>
     (\<forall>n. n \<notin> {''pass.json'', ''thumbnail.png'', ''thumbnail@2x.png''} \<longrightarrow>
        map_of (pass_package p1) n = map_of (pass_package p2) n) \<and>
     key p1 = key p2 \<and> cert p1 = cert p2 \<and>
     (w1 = w2 \<longrightarrow> py_path m1 serial_path = py_path m2 serial_path \<and>
        thumbnails p1 = thumbnails p2 \<and> w1' = w2')"
proof -
  have eq: "map_of d1 k = map_of d2 k" if "k \<noteq> ''id''" for k
    using rest that by blast
  have ops: "map_of d1 ''ops_email'' = map_of d2 ''ops_email''" by (rule eq) simp
  have dis: "map_of d1 ''discord'' = map_of d2 ''discord''" by (rule eq) simp
  have fn: "map_of d1 ''first_name'' = map_of d2 ''first_name''" by (rule eq) simp
  have sn: "map_of d1 ''surname'' = map_of d2 ''surname''" by (rule eq) simp
  have ie: "map_of d1 ''infra_email'' = map_of d2 ''infra_email''" by (rule eq) simp
  from apple_wallet_Inr[OF run1] obtain ops_email ico1 ico2 m1 discord img ths logo2 logo1 k c sg where
    a: "py_get (PDict d1) ''ops_email'' (PBool False) = Inr ops_email"
      "files env (asset_path ''icon.png'') = Some ico1"
      "files env (asset_path ''icon@2x.png'') = Some ico2"
      "pass_json (uuid4 env (uuids_drawn w1)) (PDict d1) = Inr m1"
      "py_get (PDict d1) ''discord'' (PDict []) = Inr discord"
      "py_get discord ''avatar'' (PBool False) = Inr img"
      "thumbnails_of env img (w1\<lparr>uuids_drawn := Suc (uuids_drawn w1)\<rparr>) ths w1'"
      "files env (asset_path (if py_truthy ops_email then ''logo_ops@2x.png'' else ''logo_reg@2x.png'')) = Some logo2"
      "files env (asset_path (if py_truthy ops_email then ''logo_ops.png'' else ''logo_reg.png'')) = Some logo1"
      "files env key_path = Some k" "files env cert_path = Some c"
      "p1 = \<lparr>pass_package = [(''icon.png'', ico1), (''icon@2x.png'', ico2)] @ ths @
            [(''logo@2x.png'', logo2), (''logo.png'', logo1), (''pass.json'', json_dumps env m1)],
          key = Some k, cert = Some c, signature = Some sg\<rparr>"
    by blast
  from apple_wallet_Inr[OF run2] obtain ops_email' ico1' ico2' m2 discord' img' ths' logo2' logo1' k' c' sg' where
    b: "py_get (PDict d2) ''ops_email'' (PBool False) = Inr ops_email'"
      "files env (asset_path ''icon.png'') = Some ico1'"
      "files env (asset_path ''icon@2x.png'') = Some ico2'"
      "pass_json (uuid4 env (uuids_drawn w2)) (PDict d2) = Inr m2"
      "py_get (PDict d2) ''discord'' (PDict []) = Inr discord'"
      "py_get discord' ''avatar'' (PBool False) = Inr img'"
      "thumbnails_of env img' (w2\<lparr>uuids_drawn := Suc (uuids_drawn w2)\<rparr>) ths' w2'"
      "files env (asset_path (if py_truthy ops_email' then ''logo_ops@2x.png'' else ''logo_reg@2x.png'')) = Some logo2'"
      "files env (asset_path (if py_truthy ops_email' then ''logo_ops.png'' else ''logo_reg.png'')) = Some logo1'"
      "files env key_path = Some k'" "files env cert_path = Some c'"
      "p2 = \<lparr>pass_package = [(''icon.png'', ico1'), (''icon@2x.png'', ico2')] @ ths' @
            [(''logo@2x.png'', logo2'), (''logo.png'', logo1'), (''pass.json'', json_dumps env m2)],
          key = Some k', cert = Some c', signature = Some sg'\<rparr>"
    by blast
  from a(1) b(1) ops have o: "ops_email' = ops_email" by simp
  from a(5) b(5) dis have "discord' = discord" by simp
  with a(6) b(6) have i: "img' = img" by simp
  from a(2,3,10,11) b(2,3,10,11) have f: "ico1' = ico1" "ico2' = ico2" "k' = k" "c' = c" by simp_all
  from a(8,9) b(8,9) o have l: "logo2' = logo2" "logo1' = logo1" by simp_all
  have names: "map fst ths' = map fst ths"
    using thumbnails_of_names[OF a(7)] thumbnails_of_names[OF b(7)] i by simp
  from a(4) obtain kvs x y where
    m1: "m1 = manifest (uuid4 env (uuids_drawn w1)) i1
              (case map_of kvs ''username'' of Some v \<Rightarrow> v | None \<Rightarrow> PNone)
              (PStr (x @ '' '' @ y))
              (case map_of d1 ''infra_email'' of Some v \<Rightarrow> v | None \<Rightarrow> PStr ''Not Provisioned'')"
    and c1: "(case map_of d1 ''discord'' of Some v \<Rightarrow> v | None \<Rightarrow> PDict []) = PDict kvs"
      "(case map_of d1 ''first_name'' of Some v \<Rightarrow> v | None \<Rightarrow> PStr []) = PStr x"
      "(case map_of d1 ''surname'' of Some v \<Rightarrow> v | None \<Rightarrow> PStr []) = PStr y"
    unfolding pass_json_Inr using id1 by auto
  from b(4) obtain kvs' x' y' where
    m2: "m2 = manifest (uuid4 env (uuids_drawn w2)) i2
              (case map_of kvs' ''username'' of Some v \<Rightarrow> v | None \<Rightarrow> PNone)
              (PStr (x' @ '' '' @ y'))
              (case map_of d2 ''infra_email'' of Some v \<Rightarrow> v | None \<Rightarrow> PStr ''Not Provisioned'')"
    and c2: "(case map_of d2 ''discord'' of Some v \<Rightarrow> v | None \<Rightarrow> PDict []) = PDict kvs'"
      "(case map_of d2 ''first_name'' of Some v \<Rightarrow> v | None \<Rightarrow> PStr []) = PStr x'"
      "(case map_of d2 ''surname'' of Some v \<Rightarrow> v | None \<Rightarrow> PStr []) = PStr y'"
    unfolding pass_json_Inr using id2 by auto
  from c1 c2 dis fn sn have same: "kvs' = kvs" "x' = x" "y' = y" by simp_all
  have blank: "py_replace (py_replace m1 serial_path PNone) message_path PNone =
       py_replace (py_replace m2 serial_path PNone) message_path PNone"
    unfolding m1 m2 same ie by (rule manifest_blank)
  have msg: "py_path m1 message_path = Some i1" "py_path m2 message_path = Some i2"
    unfolding m1 m2 by (rule manifest_message)+
  have ser: "py_path m1 serial_path = Some (PStr (uuid4 env (uuids_drawn w1)))"
    "py_path m2 serial_path = Some (PStr (uuid4 env (uuids_drawn w2)))"
    unfolding m1 m2 by (rule manifest_serial)+
  have fst_eq: "map fst (pass_package p1) = map fst (pass_package p2)"
    using a(12) b(12) names by simp
  have others: "map_of (pass_package p1) n = map_of (pass_package p2) n"
    if "n \<notin> {''pass.json'', ''thumbnail.png'', ''thumbnail@2x.png''}" for n
  proof -
    have t1: "map_of ths n = None"
      using that by (intro thumbnails_of_lookup[OF a(7)]) auto
    have t2: "map_of ths' n = None"
      using that by (intro thumbnails_of_lookup[OF b(7)]) auto
    show ?thesis
      using a(12) b(12) f l t1 t2 that by (simp add: map_add_def)
  qed
  have world: "py_path m1 serial_path = py_path m2 serial_path \<and>
        thumbnails p1 = thumbnails p2 \<and> w1' = w2'" if "w1 = w2"
  proof -
    from a(7) b(7) i that have "ths' = ths \<and> w2' = w1'"
      by (auto dest: thumbnails_of_fun)
    with a(12) b(12) ser that show ?thesis by (simp add: thumbnails_def)
  qed
  show ?thesis
    apply (rule exI[of _ m1], rule exI[of _ m2])
    using a(4) b(4) a(12) b(12) msg neq blank fst_eq others world f
    by simp
qed

theorem passes_differing_in_id_witness:
  "apple_wallet env_ex user_ex w0 = Some (Inr (p_ex, w1_ex)) \<and>
   apple_wallet env_ex user_ex2 w1_ex = Some (Inr (p_ex2, w2_ex)) \<and>
   PStr ''1001'' \<noteq> PStr ''1002'' \<and>
   (\<exists>m1 m2.
     pass_json (uuid4 env_ex (uuids_drawn w0)) user_ex = Inr m1 \<and>
     pass_json (uuid4 env_ex (uuids_drawn w1_ex)) user_ex2 = Inr m2 \<and>
     py_path m1 message_path = Some (PStr ''1001'') \<and>
     py_path m2 message_path = Some (PStr ''1002'') \<and>
     py_replace (py_replace m1 serial_path PNone) message_path PNone =
       py_replace (py_replace m2 serial_path PNone) message_path PNone) \<and>
   map fst (pass_package p_ex) = map fst (pass_package p_ex2) \<and>
   map_of (pass_package p_ex) ''logo.png'' = map_of (pass_package p_ex2) ''logo.png''"
proof -
  let ?d = "\<lambda>i. [(''id'', i), (''first_name'', PStr ''Ada''), (''surname'', PStr ''Lovelace''),
       (''ops_email'', PStr ''ada@hackucf.org''), (''infra_email'', PStr ''ada@infra.hackucf.org''),
       (''discord'', PDict [(''username'', PStr ''ada''), (''avatar'', avatar_ex)])]"
  have u: "user_ex = PDict (?d (PStr ''1001''))" "user_ex2 = PDict (?d (PStr ''1002''))"
    by (simp_all add: user_ex_def user_ex2_def profile_ex_def)
  have h1: "map_of (?d (PStr ''1001'')) ''id'' = Some (PStr ''1001'')" by simp
  have h2: "map_of (?d (PStr ''1002'')) ''id'' = Some (PStr ''1002'')" by simp
  have h3: "PStr ''1001'' \<noteq> PStr ''1002''" by simp
  have h4: "\<forall>k. k \<noteq> ''id'' \<longrightarrow> map_of (?d (PStr ''1001'')) k = map_of (?d (PStr ''1002'')) k"
    by simp
  from passes_differing_in_id[OF h1 h2 h3 h4 run_ex[unfolded u] run_ex2[unfolded u]]
  obtain m1 m2 where
    m: "pass_json (uuid4 env_ex (uuids_drawn w0)) (PDict (?d (PStr ''1001''))) = Inr m1"
      "pass_json (uuid4 env_ex (uuids_drawn w1_ex)) (PDict (?d (PStr ''1002''))) = Inr m2"
      "py_path m1 message_path = Some (PStr ''1001'')"
      "py_path m2 message_path = Some (PStr ''1002'')"
      "py_replace (py_replace m1 serial_path PNone) message_path PNone =
         py_replace (py_replace m2 serial_path PNone) message_path PNone"
    and names: "map fst (pass_package p_ex) = map fst (pass_package p_ex2)"
    and others: "\<forall>n. n \<notin> {''pass.json'', ''thumbnail.png'', ''thumbnail@2x.png''} \<longrightarrow>
        map_of (pass_package p_ex) n = map_of (pass_package p_ex2) n"
    by blast
  from others have logo: "map_of (pass_package p_ex) ''logo.png'' = map_of (pass_package p_ex2) ''logo.png''"
    by simp
  have ex: "\<exists>m1 m2.
     pass_json (uuid4 env_ex (uuids_drawn w0)) user_ex = Inr m1 \<and>
     pass_json (uuid4 env_ex (uuids_drawn w1_ex)) user_ex2 = Inr m2 \<and>
     py_path m1 message_path = Some (PStr ''1001'') \<and>
     py_path m2 message_path = Some (PStr ''1002'') \<and>
     py_replace (py_replace m1 serial_path PNone) message_path PNone =
       py_replace (py_replace m2 serial_path PNone) message_path PNone"
    unfolding u using m by blast
  from run_ex run_ex2 h3 ex names logo show ?thesis by blast
qed

end
